theory Spec2Isabelle
  imports Complex_Main "HOL-Library.Sublist" "HOL-Library.AList"
begin

section \<open>The ethical governor of genesis_ethical_governor.py\<close>

text \<open>
  The theory embeds the class \<open>EthicalGovernor\<close> of
  \<^verbatim>\<open>src/app/ai_backend/genesis_ethical_governor.py\<close>. The class body repeats the block
  \<open>activate_governance\<close> ... \<open>_check_concerns\<close> six times with the same text; Python keeps
  the last definition of a name, so the line numbers quoted below are those of the last
  copy (lines 1682 to 1971). A leading underscore of a source name is written \<open>u_\<close>,
  since an Isabelle name starts with a letter.
\<close>

subsection \<open>Python values, strings and exceptions\<close>

text \<open>
  The values a \<open>Dict[str, Any]\<close> carries: the data of a decoded JSON document. Their
  truth test and their comparison with a string never raise. A float is the rational its
  literal denotes; the code does no arithmetic on floats.
\<close>

datatype pyval =
    PNone
  | PBool bool
  | PInt int
  | PFloat rat
  | PStr string
  | PList "pyval list"
  | PDict "(string \<times> pyval) list"

text \<open>Python's truth test, as \<open>if v\<close>, \<open>not v\<close> and \<open>v and w\<close> apply it.\<close>

fun truthy :: "pyval \<Rightarrow> bool" where
  "truthy PNone = False"
| "truthy (PBool b) = b"
| "truthy (PInt i) = (i \<noteq> 0)"
| "truthy (PFloat r) = (r \<noteq> 0)"
| "truthy (PStr s) = (s \<noteq> [])"
| "truthy (PList xs) = (xs \<noteq> [])"
| "truthy (PDict kvs) = (kvs \<noteq> [])"

text \<open>\<open>v == "s"\<close> for a string literal \<open>s\<close>: only a string is equal to a string.\<close>

definition py_eq_str :: "pyval \<Rightarrow> string \<Rightarrow> bool" where
  "py_eq_str v s = (v = PStr s)"

fun type_name :: "pyval \<Rightarrow> string" where
  "type_name PNone = ''NoneType''"
| "type_name (PBool b) = ''bool''"
| "type_name (PInt i) = ''int''"
| "type_name (PFloat r) = ''float''"
| "type_name (PStr s) = ''str''"
| "type_name (PList xs) = ''list''"
| "type_name (PDict kvs) = ''dict''"

text \<open>
  Exceptions are values. \<open>AttributeError\<close> is what a failed attribute lookup raises;
  \<open>Raised\<close> is any other exception derived from \<open>Exception\<close>, as an external
  collaborator may raise it. \<open>str_exn\<close> is \<open>str(e)\<close>, the text an f-string inserts.
\<close>

datatype exn = AttributeError string | Raised string

fun str_exn :: "exn \<Rightarrow> string" where
  "str_exn (AttributeError m) = m"
| "str_exn (Raised m) = m"

definition then_do :: "exn + 'a \<Rightarrow> ('a \<Rightarrow> exn + 'b) \<Rightarrow> exn + 'b" where
  "then_do r f = (case r of Inl e \<Rightarrow> Inl e | Inr v \<Rightarrow> f v)"

definition quoted :: "string \<Rightarrow> string" where
  "quoted s = CHR 0x27 # s @ [CHR 0x27]"

text \<open>\<open>obj.get(key, default)\<close>: a dict answers, any other value has no attribute \<open>get\<close>.\<close>

fun py_get :: "pyval \<Rightarrow> string \<Rightarrow> pyval \<Rightarrow> exn + pyval" where
  "py_get (PDict kvs) k dflt = Inr (case map_of kvs k of None \<Rightarrow> dflt | Some v \<Rightarrow> v)"
| "py_get v k dflt =
     Inl (AttributeError (quoted (type_name v) @ '' object has no attribute '' @ quoted ''get''))"

text \<open>\<open>s.lower()\<close> on the ASCII letters, and \<open>sub in s\<close> for strings.\<close>

definition char_lower :: "char \<Rightarrow> char" where
  "char_lower c =
     (case map_of (zip ''ABCDEFGHIJKLMNOPQRSTUVWXYZ'' ''abcdefghijklmnopqrstuvwxyz'') c of
        None \<Rightarrow> c
      | Some l \<Rightarrow> l)"

definition lower :: "string \<Rightarrow> string" where
  "lower s = map char_lower s"

fun str_contains :: "string \<Rightarrow> string \<Rightarrow> bool" where
  "str_contains sub [] = (sub = [])"
| "str_contains sub (c # cs) = (prefix sub (c # cs) \<or> str_contains sub cs)"

text \<open>\<open>sep.join(xs)\<close>.\<close>

fun join :: "string \<Rightarrow> string list \<Rightarrow> string" where
  "join sep [] = []"
| "join sep [x] = x"
| "join sep (x # y # ys) = x @ sep @ join sep (y # ys)"

text \<open>Decimal text of an integer, as an f-string prints it, and \<open>int(x)\<close> of a float.\<close>

fun str_nat :: "nat \<Rightarrow> string" where
  "str_nat n =
     (if n < 10 then [''0123456789'' ! n]
      else str_nat (n div 10) @ [''0123456789'' ! (n mod 10)])"

declare str_nat.simps [simp del]

definition str_int :: "int \<Rightarrow> string" where
  "str_int i = (if i < 0 then CHR ''-'' # str_nat (nat (- i)) else str_nat (nat i))"

definition int_of_float :: "rat \<Rightarrow> int" where
  "int_of_float x = (if 0 \<le> x then \<lfloor>x\<rfloor> else \<lceil>x\<rceil>)"

subsection \<open>The enumerations and the two dataclasses (lines 26 to 115)\<close>

datatype EthicalSeverity = INFO | CONCERN | WARNING | VIOLATION | CRITICAL

datatype EthicalDecisionType = ALLOW | MONITOR | RESTRICT | BLOCK | ESCALATE

fun severity_value :: "EthicalSeverity \<Rightarrow> string" where
  "severity_value INFO = ''info''"
| "severity_value CONCERN = ''concern''"
| "severity_value WARNING = ''warning''"
| "severity_value VIOLATION = ''violation''"
| "severity_value CRITICAL = ''critical''"

fun decision_value :: "EthicalDecisionType \<Rightarrow> string" where
  "decision_value ALLOW = ''allow''"
| "decision_value MONITOR = ''monitor''"
| "decision_value RESTRICT = ''restrict''"
| "decision_value BLOCK = ''block''"
| "decision_value ESCALATE = ''escalate''"

text \<open>
  \<open>EthicalContext\<close>. Python does not check the annotations of a dataclass, and
  \<open>review_decision\<close> fills the fields with whatever the caller's dict holds, so every
  field but \<open>action_type\<close> is a \<open>pyval\<close>.
\<close>

record EthicalContext =
  action_type :: string
  actor :: pyval
  target :: pyval
  scope :: pyval
  user_consent :: pyval
  reversible :: pyval
  persistent :: pyval
  sensitive_data_involved :: pyval
  system_modification :: pyval
  user_visible :: pyval
  metadata :: pyval

text \<open>\<open>__post_init__\<close> (lines 69 to 74): a missing metadata becomes the empty dict.\<close>

definition context_post_init :: "EthicalContext \<Rightarrow> EthicalContext" where
  "context_post_init c = (if metadata c = PNone then c\<lparr>metadata := PDict []\<rparr> else c)"

text \<open>\<open>EthicalContext(action_type=a, actor=who)\<close>: every other field at its default.\<close>

definition default_context :: "string \<Rightarrow> pyval \<Rightarrow> EthicalContext" where
  "default_context a who =
     context_post_init
       \<lparr>action_type = a, actor = who, target = PNone, scope = PStr ''local'',
        user_consent = PNone, reversible = PBool True, persistent = PBool False,
        sensitive_data_involved = PBool False, system_modification = PBool False,
        user_visible = PBool True, metadata = PNone\<rparr>"

text \<open>
  \<open>EthicalDecision\<close>. The fields \<open>action_type\<close>, \<open>actor\<close> and \<open>context\<close> carry the
  prefix \<open>d_\<close> here. \<open>restrictions\<close> and \<open>monitoring_requirements\<close> hold the list that
  \<open>__post_init__\<close> (lines 93 to 100) leaves: the empty list where the constructor call
  gives none.
\<close>

record EthicalDecision =
  decision_id :: string
  timestamp :: rat
  d_action_type :: string
  d_actor :: pyval
  d_context :: EthicalContext
  decision :: EthicalDecisionType
  severity :: EthicalSeverity
  affected_principles :: "string list"
  reasoning :: string
  confidence :: rat
  restrictions :: "string list"
  monitoring_requirements :: "string list"
  escalation_reason :: "string option"

subsection \<open>What the class takes from outside\<close>

text \<open>
  One record per call holds what the call reads from outside the code under src/.

  The external collaborators: \<open>time_time k\<close> is the value of the \<open>k\<close>-th call of
  \<open>time.time()\<close> during the call, \<open>hash_str\<close> is Python's \<open>hash\<close> on strings,
  \<open>utc_now_iso\<close> is \<open>datetime.now(tz=timezone.utc).isoformat()\<close>, and
  \<open>perceive_ethical_decision\<close> is the function of that name imported from
  \<open>genesis_consciousness_matrix\<close> (line 24): it takes the event type, the payload and the
  weight, and either returns (\<open>None\<close>) or raises (\<open>Some e\<close>).
\<close>

type_synonym interceptor =
  "string \<Rightarrow> pyval \<Rightarrow> EthicalContext \<Rightarrow> string \<Rightarrow> exn + EthicalDecision"

type_synonym learning_state = "(string \<times> rat) list \<times> (string \<times> pyval list) list \<times> nat"

text \<open>
  Modelled from the spec: the methods \<open>_generate_decision_id\<close>, \<open>_infer_context\<close>,
  \<open>_general_ethical_evaluation\<close> and \<open>_learn_from_decision\<close>, which \<open>evaluate_action\<close>
  calls and which are not in the part of the file under src/ (the file breaks off at line
  1983, inside the last \<open>activate_governance\<close>). The spec has the first "generate a unique
  decision id", the second build a context and "never fail", the third return a decision
  (an evaluator fault is its error case), and the last one, the learning adjuster, nudge
  the principle weights and increment the \<open>learning_adjustments\<close> metric. Each is a
  field of the record, with that type; \<open>learn_from_decision\<close> takes and returns the
  principle weights, the violation patterns and the \<open>learning_adjustments\<close> counter.
\<close>

record externals =
  time_time :: "nat \<Rightarrow> rat"
  hash_str :: "string \<Rightarrow> int"
  utc_now_iso :: string
  perceive_ethical_decision :: "string \<Rightarrow> (string \<times> pyval) list \<Rightarrow> string \<Rightarrow> exn option"
  generate_decision_id :: "string \<Rightarrow> string \<Rightarrow> string"
  infer_context :: "string \<Rightarrow> string \<Rightarrow> pyval \<Rightarrow> EthicalContext"
  general_ethical_evaluation ::
    "string \<Rightarrow> string \<Rightarrow> pyval \<Rightarrow> EthicalContext \<Rightarrow> string \<Rightarrow> exn + EthicalDecision"
  learn_from_decision :: "EthicalDecision \<Rightarrow> learning_state \<Rightarrow> learning_state"

subsection \<open>The governor's state (lines 128 to 164)\<close>

text \<open>
  The dict \<open>ethical_metrics\<close> has five fixed keys, each a counter that starts at 0 and
  is only ever incremented: a record of naturals. A dict whose order or size is read
  (\<open>principle_weights\<close>) is an association list with distinct keys, updated with
  \<open>AList.update\<close>: a present key keeps its place, a new key goes to the end. The deque
  \<open>decision_history\<close> is the list of its entries, oldest first. The lock is left out:
  the calls are taken one after the other.
\<close>

record metrics =
  total_decisions :: nat
  violations_prevented :: nat
  restrictions_imposed :: nat
  escalations_required :: nat
  learning_adjustments :: nat

record EthicalGovernor =
  core_philosophy :: "(string \<times> string list) list"
  ethical_foundation :: "string list"
  creative_principles :: "string list"
  security_principles :: "string list"
  decision_history :: "EthicalDecision list"
  active_restrictions :: "(string \<times> pyval) list"
  monitoring_queue :: "pyval list"
  principle_weights :: "(string \<times> rat) list"
  violation_patterns :: "(string \<times> pyval list) list"
  ethical_metrics :: metrics
  governance_active :: bool
  strictness_level :: rat
  learning_mode :: bool
  action_interceptors :: "(string \<times> interceptor) list"

text \<open>
  \<open>deque(maxlen=m).append(x)\<close>: the entry goes to the right end, and when the deque
  then holds more than \<open>m\<close> entries the leftmost one is dropped.
\<close>

definition deque_append :: "nat \<Rightarrow> 'a list \<Rightarrow> 'a \<Rightarrow> 'a list" where
  "deque_append m xs x = (let ys = xs @ [x] in if length ys > m then tl ys else ys)"

subsection \<open>The principle weights (lines 166 to 205)\<close>

text \<open>One round of the loop over the foundation statements: the first branch that matches.\<close>

definition seed_weight :: "(string \<times> rat) list \<Rightarrow> string \<Rightarrow> (string \<times> rat) list" where
  "seed_weight weights principle =
     (if str_contains ''privacy'' (lower principle) then AList.update ''privacy'' 1.0 weights
      else if str_contains ''security'' (lower principle) then AList.update ''security'' 1.0 weights
      else if str_contains ''transparency'' (lower principle)
        then AList.update ''transparency'' 0.9 weights
      else if str_contains ''autonomy'' (lower principle) then AList.update ''autonomy'' 0.9 weights
      else if str_contains ''creativity'' (lower principle)
        then AList.update ''creativity'' 0.8 weights
      else weights)"

definition default_weights :: "(string \<times> rat) list" where
  "default_weights =
     [(''privacy'', 1.0), (''security'', 1.0), (''autonomy'', 0.9), (''transparency'', 0.9),
      (''fairness'', 0.8), (''safety'', 0.9), (''creativity'', 0.8), (''human_wellbeing'', 1.0),
      (''system_integrity'', 0.9)]"

text \<open>The loop over \<open>default_weights.items()\<close>: a principle not yet present gets its default.\<close>

fun fill_defaults :: "(string \<times> rat) list \<Rightarrow> (string \<times> rat) list \<Rightarrow> (string \<times> rat) list" where
  "fill_defaults weights [] = weights"
| "fill_defaults weights ((principle, weight) # rest) =
     fill_defaults
       (if map_of weights principle = None then AList.update principle weight weights
        else weights)
       rest"

definition u_initialize_principle_weights :: "string list \<Rightarrow> (string \<times> rat) list" where
  "u_initialize_principle_weights foundation =
     fill_defaults (foldl seed_weight [] foundation) default_weights"

subsection \<open>Construction and registration (lines 128 to 164, 207 to 225, 1706 to 1715)\<close>

definition register_interceptor ::
  "EthicalGovernor \<Rightarrow> string \<Rightarrow> interceptor \<Rightarrow> EthicalGovernor" where
  "register_interceptor self a evaluator =
     self\<lparr>action_interceptors := AList.update a evaluator (action_interceptors self)\<rparr>"

text \<open>
  \<open>self._evaluate_data_access\<close> and its four siblings are attribute lookups on the
  instance, made while \<open>__init__\<close> runs; a name the class does not define raises
  \<open>AttributeError\<close> there. \<open>methods\<close> holds the evaluator methods a class defines, from
  method name to evaluator.
\<close>

definition getattr_method :: "(string \<times> interceptor) list \<Rightarrow> string \<Rightarrow> exn + interceptor" where
  "getattr_method methods name =
     (case map_of methods name of
        None \<Rightarrow>
          Inl (AttributeError
                (quoted ''EthicalGovernor'' @ '' object has no attribute '' @ quoted name))
      | Some f \<Rightarrow> Inr f)"


text \<open>
  \<open>_setup_core_interceptors\<close> (lines 207 to 225). Each argument \<open>self._evaluate_...\<close> is
  looked up before \<open>register_interceptor\<close> is called with it.
\<close>

definition u_setup_core_interceptors ::
  "(string \<times> interceptor) list \<Rightarrow> EthicalGovernor \<Rightarrow> exn + EthicalGovernor" where
  "u_setup_core_interceptors methods self =
     then_do (getattr_method methods ''_evaluate_data_access'') (\<lambda>f1.
     let self1 = register_interceptor self ''data_access'' f1 in
     then_do (getattr_method methods ''_evaluate_system_modification'') (\<lambda>f2.
     let self2 = register_interceptor self1 ''system_modify'' f2 in
     then_do (getattr_method methods ''_evaluate_user_interaction'') (\<lambda>f3.
     let self3 = register_interceptor self2 ''user_interact'' f3 in
     then_do (getattr_method methods ''_evaluate_ai_decision'') (\<lambda>f4.
     let self4 = register_interceptor self3 ''ai_decision'' f4 in
     then_do (getattr_method methods ''_evaluate_network_communication'') (\<lambda>f5.
     Inr (register_interceptor self4 ''network_communicate'' f5))))))"

text \<open>
  \<open>__init__\<close>. \<open>GENESIS_PROFILE\<close> is imported from \<open>genesis_profile\<close> (line 23), which is
  not under src/: it is the parameter \<open>profile\<close>, a dict whose entry \<open>core_philosophy\<close> is
  a dict of lists of statements.
\<close>

definition dict_get :: "(string \<times> 'v) list \<Rightarrow> string \<Rightarrow> 'v \<Rightarrow> 'v" where
  "dict_get d k dflt = (case map_of d k of None \<Rightarrow> dflt | Some v \<Rightarrow> v)"

definition EthicalGovernor_init ::
  "(string \<times> (string \<times> string list) list) list \<Rightarrow> (string \<times> interceptor) list
     \<Rightarrow> exn + EthicalGovernor" where
  "EthicalGovernor_init profile methods =
     (let philosophy = dict_get profile ''core_philosophy'' [];
          foundation = dict_get philosophy ''ethical_foundation'' []
      in u_setup_core_interceptors methods
           \<lparr>core_philosophy = philosophy,
            ethical_foundation = foundation,
            creative_principles = dict_get philosophy ''creative_principles'' [],
            security_principles = dict_get philosophy ''security_principles'' [],
            decision_history = [],
            active_restrictions = [],
            monitoring_queue = [],
            principle_weights = u_initialize_principle_weights foundation,
            violation_patterns = [],
            ethical_metrics =
              \<lparr>total_decisions = 0, violations_prevented = 0, restrictions_imposed = 0,
               escalations_required = 0, learning_adjustments = 0\<rparr>,
            governance_active = False,
            strictness_level = 0.7,
            learning_mode = True,
            action_interceptors = []\<rparr>)"

text \<open>
  \<open>activate_governance\<close> (lines 1682 to 1704; the copy that starts at line 1973 is cut
  off after its first lines, which are the same). The flag is set before the sink is
  called, and the call has no handler.
\<close>

definition activate_governance ::
  "externals \<Rightarrow> EthicalGovernor \<Rightarrow> (exn + unit) \<times> EthicalGovernor" where
  "activate_governance ext self =
     (let self1 = self\<lparr>governance_active := True\<rparr> in
      case perceive_ethical_decision ext ''governance_activation''
             [(''timestamp'', PStr (utc_now_iso ext)),
              (''strictness_level'', PFloat (strictness_level self1)),
              (''active_principles'', PInt (int (length (principle_weights self1)))),
              (''learning_mode'', PBool (learning_mode self1))]
             ''high'' of
        Some e \<Rightarrow> (Inl e, self1)
      | None \<Rightarrow> (Inr (), self1))"

subsection \<open>The rule checks and the general evaluation (lines 1869 to 1971)\<close>

definition u_check_violations :: "string \<Rightarrow> EthicalContext \<Rightarrow> string list" where
  "u_check_violations a c =
     (let violations = [];
          violations =
            (if truthy (sensitive_data_involved c) \<and> \<not> truthy (user_consent c)
             then violations @ [''privacy''] else violations);
          violations =
            (if truthy (system_modification c) \<and> py_eq_str (scope c) ''global''
             then violations @ [''security''] else violations);
          violations =
            (if \<not> truthy (user_visible c) \<and> truthy (persistent c)
             then violations @ [''autonomy''] else violations)
      in violations)"

definition u_check_concerns :: "string \<Rightarrow> EthicalContext \<Rightarrow> string list" where
  "u_check_concerns a c =
     (let concerns = [];
          concerns =
            (if \<not> truthy (user_visible c) \<and> a \<notin> set [''system_monitor'', ''background_task'']
             then concerns @ [''transparency''] else concerns);
          concerns =
            (if \<not> truthy (reversible c)
                \<and> (py_eq_str (scope c) ''system'' \<or> py_eq_str (scope c) ''global'')
             then concerns @ [''safety''] else concerns)
      in concerns)"

text \<open>
  \<open>_evaluate_action\<close>. Beside the decision, the model returns the names of the rule
  checks the call has made, in the order of the calls.
\<close>

definition u_evaluate_action ::
  "externals \<Rightarrow> string \<Rightarrow> EthicalContext \<Rightarrow> EthicalDecision \<times> string list" where
  "u_evaluate_action ext a c =
     (let did = ''decision_'' @ str_int (int_of_float (time_time ext 0)) @ ''_''
                  @ str_int (hash_str ext a mod 10000);
          violations = u_check_violations a c
      in if violations \<noteq> [] then
           (\<lparr>decision_id = did, timestamp = time_time ext 1, d_action_type = a,
             d_actor = actor c, d_context = c, decision = BLOCK, severity = VIOLATION,
             affected_principles = violations,
             reasoning = ''Ethical violations detected: '' @ join '', '' violations,
             confidence = 0.95, restrictions = [], monitoring_requirements = [],
             escalation_reason = None\<rparr>,
            [''_check_violations''])
         else
           let concerns = u_check_concerns a c
           in if concerns \<noteq> [] then
                (\<lparr>decision_id = did, timestamp = time_time ext 1, d_action_type = a,
                  d_actor = actor c, d_context = c, decision = MONITOR, severity = CONCERN,
                  affected_principles = concerns,
                  reasoning = ''Ethical concerns identified: '' @ join '', '' concerns,
                  confidence = 0.85, restrictions = [],
                  monitoring_requirements = [''increased_logging'', ''user_notification''],
                  escalation_reason = None\<rparr>,
                 [''_check_violations'', ''_check_concerns''])
              else
                (\<lparr>decision_id = did, timestamp = time_time ext 1, d_action_type = a,
                  d_actor = actor c, d_context = c, decision = ALLOW, severity = INFO,
                  affected_principles = [],
                  reasoning = ''No ethical concerns identified'',
                  confidence = 0.90, restrictions = [], monitoring_requirements = [],
                  escalation_reason = None\<rparr>,
                 [''_check_violations'', ''_check_concerns'']))"

subsection \<open>evaluate_action (lines 1717 to 1801)\<close>

text \<open>
  The decision of an active governor, lines 1754 to 1769: the context is the caller's or
  the inferred one, and the decision comes from the interceptor registered for the action
  type when there is one, from the general evaluation otherwise.
\<close>

definition resolve_decision ::
  "externals \<Rightarrow> EthicalGovernor \<Rightarrow> string \<Rightarrow> string \<Rightarrow> pyval \<Rightarrow> EthicalContext option
     \<Rightarrow> exn + EthicalDecision" where
  "resolve_decision ext self a who action_data context =
     (let did = generate_decision_id ext a who;
          c = (case context of
                 None \<Rightarrow> infer_context ext a who action_data
               | Some given \<Rightarrow> given)
      in case map_of (action_interceptors self) a of
           Some evaluator \<Rightarrow> evaluator who action_data c did
         | None \<Rightarrow> general_ethical_evaluation ext a who action_data c did)"

text \<open>Lines 1776 to 1781: the counter of the decision's kind.\<close>

definition count_kind :: "metrics \<Rightarrow> EthicalDecision \<Rightarrow> metrics" where
  "count_kind m d =
     (if decision d = BLOCK then m\<lparr>violations_prevented := violations_prevented m + 1\<rparr>
      else if decision d = RESTRICT then m\<lparr>restrictions_imposed := restrictions_imposed m + 1\<rparr>
      else if decision d = ESCALATE then m\<lparr>escalations_required := escalations_required m + 1\<rparr>
      else m)"

text \<open>Lines 1797 to 1799: what the learning adjuster changes is written back.\<close>

definition learn :: "externals \<Rightarrow> EthicalGovernor \<Rightarrow> EthicalDecision \<Rightarrow> EthicalGovernor" where
  "learn ext self d =
     (case learn_from_decision ext d
             (principle_weights self, violation_patterns self,
              learning_adjustments (ethical_metrics self)) of
        (weights, patterns, adjustments) \<Rightarrow>
          self\<lparr>principle_weights := weights, violation_patterns := patterns,
               ethical_metrics := (ethical_metrics self)\<lparr>learning_adjustments := adjustments\<rparr>\<rparr>)"

text \<open>Lines 1783 to 1795: the decision goes to the awareness sink, which returns or raises.\<close>

definition emit_decision :: "externals \<Rightarrow> EthicalDecision \<Rightarrow> exn option" where
  "emit_decision ext d =
     perceive_ethical_decision ext (d_action_type d)
       [(''decision'', PStr (decision_value (decision d))),
        (''severity'', PStr (severity_value (severity d))),
        (''actor'', d_actor d),
        (''reasoning'', PStr (reasoning d)),
        (''confidence'', PFloat (confidence d)),
        (''affected_principles'', PList (map PStr (affected_principles d)))]
       (severity_value (severity d))"

text \<open>
  The call returns the decision or raises, and leaves the governor in a new state in
  both cases: the result is the pair of the two. An absent \<open>context\<close> argument is \<open>None\<close>.
\<close>

definition evaluate_action ::
  "externals \<Rightarrow> EthicalGovernor \<Rightarrow> string \<Rightarrow> string \<Rightarrow> pyval \<Rightarrow> EthicalContext option
     \<Rightarrow> (exn + EthicalDecision) \<times> EthicalGovernor" where
  "evaluate_action ext self a who action_data context =
     (if \<not> governance_active self then
        (Inr \<lparr>decision_id = generate_decision_id ext a who,
              timestamp = time_time ext 0,
              d_action_type = a,
              d_actor = PStr who,
              d_context = (case context of
                             None \<Rightarrow> default_context a (PStr who)
                           | Some given \<Rightarrow> given),
              decision = ALLOW,
              severity = INFO,
              affected_principles = [],
              reasoning = ''Ethical governance not active'',
              confidence = 1.0,
              restrictions = [],
              monitoring_requirements = [],
              escalation_reason = None\<rparr>,
         self)
      else
        case resolve_decision ext self a who action_data context of
          Inl e \<Rightarrow> (Inl e, self)
        | Inr d \<Rightarrow>
            let self1 = self\<lparr>decision_history := deque_append 10000 (decision_history self) d\<rparr>;
                self2 = self1\<lparr>ethical_metrics :=
                          (ethical_metrics self1)
                            \<lparr>total_decisions := total_decisions (ethical_metrics self1) + 1\<rparr>\<rparr>;
                self3 = self2\<lparr>ethical_metrics := count_kind (ethical_metrics self2) d\<rparr>
            in (case emit_decision ext d of
                 Some e \<Rightarrow> (Inl e, self3)
               | None \<Rightarrow>
                   (Inr d, if learning_mode self3 then learn ext self3 d else self3)))"

subsection \<open>review_decision (lines 1803 to 1867)\<close>

text \<open>
  Lines 1818 to 1834: the context built from the caller's dict. Each \<open>context.get\<close> is a
  lookup on the same object, so each can fail as the first one does.
\<close>

definition review_context :: "string \<Rightarrow> pyval \<Rightarrow> pyval \<Rightarrow> exn + EthicalContext" where
  "review_context a context meta =
     (let meta1 = (if meta = PNone then PDict [] else meta) in
      then_do (py_get context ''persona'' (PStr ''unknown'')) (\<lambda>v_actor.
      then_do (py_get context ''target'' PNone) (\<lambda>v_target.
      then_do (py_get context ''scope'' (PStr ''local'')) (\<lambda>v_scope.
      then_do (py_get context ''user_consent'' PNone) (\<lambda>v_consent.
      then_do (py_get context ''reversible'' (PBool True)) (\<lambda>v_reversible.
      then_do (py_get context ''persistent'' (PBool False)) (\<lambda>v_persistent.
      then_do (py_get context ''sensitive_data'' (PBool False)) (\<lambda>v_sensitive.
      then_do (py_get context ''system_modification'' (PBool False)) (\<lambda>v_modification.
      then_do (py_get context ''user_visible'' (PBool True)) (\<lambda>v_visible.
      Inr (context_post_init
             \<lparr>action_type = a, actor = v_actor, target = v_target, scope = v_scope,
              user_consent = v_consent, reversible = v_reversible,
              persistent = v_persistent, sensitive_data_involved = v_sensitive,
              system_modification = v_modification, user_visible = v_visible,
              metadata = meta1\<rparr>)))))))))))"

text \<open>Lines 1839 to 1849: the reviewed decision goes to the awareness sink.\<close>

definition emit_review :: "externals \<Rightarrow> string \<Rightarrow> EthicalContext \<Rightarrow> EthicalDecision \<Rightarrow> exn option" where
  "emit_review ext a ethical_context d =
     perceive_ethical_decision ext a
       [(''decision'', PStr (decision_value (decision d))),
        (''severity'', PStr (severity_value (severity d))),
        (''reasoning'', PStr (reasoning d)),
        (''actor'', actor ethical_context)]
       (severity_value (severity d))"

text \<open>The body of the \<open>try\<close>, lines 1817 to 1851.\<close>

definition review_attempt :: "externals \<Rightarrow> string \<Rightarrow> pyval \<Rightarrow> pyval \<Rightarrow> exn + EthicalDecision" where
  "review_attempt ext a context meta =
     then_do (review_context a context meta) (\<lambda>ethical_context.
       let d = fst (u_evaluate_action ext a ethical_context) in
       case emit_review ext a ethical_context d of
         Some e \<Rightarrow> Inl e
       | None \<Rightarrow> Inr d)"

text \<open>
  The handler, lines 1853 to 1867. It reads \<open>context.get("persona", "unknown")\<close> again,
  outside any \<open>try\<close>. When it runs after the general evaluation, the clock has been read
  twice already.
\<close>

definition review_fallback :: "externals \<Rightarrow> string \<Rightarrow> pyval \<Rightarrow> exn \<Rightarrow> exn + EthicalDecision" where
  "review_fallback ext a context e =
     then_do (py_get context ''persona'' (PStr ''unknown'')) (\<lambda>v_actor.
       Inr \<lparr>decision_id = ''error_'' @ str_int (int_of_float (time_time ext 2)),
            timestamp = time_time ext 3,
            d_action_type = a,
            d_actor = v_actor,
            d_context = default_context a (PStr ''error''),
            decision = BLOCK,
            severity = CRITICAL,
            affected_principles = [''system_integrity''],
            reasoning = ''Ethical review failed: '' @ str_exn e,
            confidence = 1.0,
            restrictions = [],
            monitoring_requirements = [],
            escalation_reason = Some ''review_system_error''\<rparr>)"

text \<open>An absent \<open>metadata\<close> argument is \<open>PNone\<close>. The governor is returned as it came.\<close>

definition review_decision ::
  "externals \<Rightarrow> EthicalGovernor \<Rightarrow> string \<Rightarrow> pyval \<Rightarrow> pyval
     \<Rightarrow> (exn + EthicalDecision) \<times> EthicalGovernor" where
  "review_decision ext self a context meta =
     (case review_attempt ext a context meta of
        Inr d \<Rightarrow> (Inr d, self)
      | Inl e \<Rightarrow> (review_fallback ext a context e, self))"

subsection \<open>Sequences of calls\<close>

text \<open>
  One call of \<open>evaluate_action\<close>: what it reads from outside and its four arguments.
  \<open>run_evaluations\<close> makes the calls one after the other on the same governor; a caller
  that catches an exception goes on with the state the failed call left.
  \<open>recorded_decisions\<close> lists, in the order of the calls, the decisions that reached
  line 1772.
\<close>

record evaluation_call =
  call_ext :: externals
  call_action_type :: string
  call_actor :: string
  call_action_data :: pyval
  call_context :: "EthicalContext option"

fun run_evaluations :: "EthicalGovernor \<Rightarrow> evaluation_call list \<Rightarrow> EthicalGovernor" where
  "run_evaluations self [] = self"
| "run_evaluations self (c # cs) =
     run_evaluations
       (snd (evaluate_action (call_ext c) self (call_action_type c) (call_actor c)
               (call_action_data c) (call_context c)))
       cs"

fun recorded_decisions :: "EthicalGovernor \<Rightarrow> evaluation_call list \<Rightarrow> EthicalDecision list" where
  "recorded_decisions self [] = []"
| "recorded_decisions self (c # cs) =
     (case resolve_decision (call_ext c) self (call_action_type c) (call_actor c)
             (call_action_data c) (call_context c) of
        Inl e \<Rightarrow> []
      | Inr d \<Rightarrow> [d])
     @ recorded_decisions
         (snd (evaluate_action (call_ext c) self (call_action_type c) (call_actor c)
                 (call_action_data c) (call_context c)))
         cs"

subsection \<open>Concrete inputs\<close>

text \<open>
  The inputs at which the closed instances below are evaluated: an evaluator that allows
  whatever it is asked, an environment whose sink returns and one whose sink raises, a
  profile, and a governor with the fields as \<open>__init__\<close> sets them and one interceptor
  registered.
\<close>

definition sample_decision :: "string \<Rightarrow> EthicalContext \<Rightarrow> string \<Rightarrow> EthicalDecision" where
  "sample_decision who c did =
     \<lparr>decision_id = did, timestamp = 0, d_action_type = action_type c,
      d_actor = PStr who, d_context = c, decision = ALLOW, severity = INFO,
      affected_principles = [], reasoning = ''sample evaluator'', confidence = 1.0,
      restrictions = [], monitoring_requirements = [], escalation_reason = None\<rparr>"

definition sample_evaluator :: interceptor where
  "sample_evaluator who action_data c did = Inr (sample_decision who c did)"

definition sample_externals :: externals where
  "sample_externals =
     \<lparr>time_time = (\<lambda>k. 1700000000),
      hash_str = (\<lambda>s. 42),
      utc_now_iso = ''2025-01-01T00:00:00+00:00'',
      perceive_ethical_decision = (\<lambda>event payload weight. None),
      generate_decision_id = (\<lambda>a who. ''ethical_1''),
      infer_context = (\<lambda>a who action_data. default_context a (PStr who)),
      general_ethical_evaluation = (\<lambda>a who action_data c did. sample_evaluator who action_data c did),
      learn_from_decision = (\<lambda>d st. st)\<rparr>"

definition failing_sink_externals :: externals where
  "failing_sink_externals =
     sample_externals\<lparr>perceive_ethical_decision :=
                        (\<lambda>event payload weight. Some (Raised ''sink down''))\<rparr>"


definition sample_governor :: EthicalGovernor where
  "sample_governor =
     \<lparr>core_philosophy = [], ethical_foundation = [], creative_principles = [],
      security_principles = [], decision_history = [], active_restrictions = [],
      monitoring_queue = [], principle_weights = default_weights, violation_patterns = [],
      ethical_metrics =
        \<lparr>total_decisions = 0, violations_prevented = 0, restrictions_imposed = 0,
         escalations_required = 0, learning_adjustments = 0\<rparr>,
      governance_active = False, strictness_level = 0.7, learning_mode = True,
      action_interceptors = [(''data_access'', sample_evaluator)]\<rparr>"

text \<open>The dict \<open>{"sensitive_data": True, "user_consent": False}\<close> and its context.\<close>

definition sensitive_request :: pyval where
  "sensitive_request = PDict [(''sensitive_data'', PBool True), (''user_consent'', PBool False)]"

definition sensitive_context :: EthicalContext where
  "sensitive_context =
     (default_context ''data_access'' (PStr ''unknown''))
       \<lparr>sensitive_data_involved := PBool True, user_consent := PBool False\<rparr>"

text \<open>
  A call of \<open>evaluate_action\<close> for an action type without interceptor, and an active
  governor whose history is full.
\<close>

definition sample_call :: evaluation_call where
  "sample_call =
     \<lparr>call_ext = sample_externals, call_action_type = ''user_interact'',
      call_actor = ''agent'', call_action_data = PDict [], call_context = None\<rparr>"

definition full_governor :: EthicalGovernor where
  "full_governor =
     sample_governor
       \<lparr>governance_active := True,
        decision_history := replicate 10000 (sample_decision ''agent'' sensitive_context ''ethical_0'')\<rparr>"

text \<open>The names of the five methods that \<open>_setup_core_interceptors\<close> looks up.\<close>

definition core_evaluator_names :: "string list" where
  "core_evaluator_names =
     [''_evaluate_data_access'', ''_evaluate_system_modification'',
      ''_evaluate_user_interaction'', ''_evaluate_ai_decision'',
      ''_evaluate_network_communication'']"

section \<open>Properties\<close>

subsection \<open>The principle weights\<close>

lemma map_add_absorb: "m2 \<subseteq>\<^sub>m m1 \<Longrightarrow> m1 ++ m2 = m1"
  by (rule ext) (auto simp: map_add_def map_le_def dom_def split: option.splits)

lemma map_of_fill_defaults: "map_of (fill_defaults ws T) = map_of T ++ map_of ws"
proof (induction T arbitrary: ws)
  case Nil
  show ?case by simp
next
  case (Cons a T)
  obtain p w where a: "a = (p, w)" by (cases a)
  show ?case
    unfolding a
    by (rule ext) (auto simp: Cons.IH update_conv' map_add_def split: option.splits)
qed

lemma distinct_fill_defaults:
  "distinct (map fst ws) \<Longrightarrow> distinct (map fst (fill_defaults ws T))"
  by (induction T arbitrary: ws) (auto simp: distinct_update)

lemma seed_weight_le:
  assumes "map_of ws \<subseteq>\<^sub>m map_of default_weights"
  shows "map_of (seed_weight ws s) \<subseteq>\<^sub>m map_of default_weights"
proof -
  have upd: "map_of (AList.update k v ws) \<subseteq>\<^sub>m map_of default_weights"
    if "map_of default_weights k = Some v" for k v
    using assms that by (auto simp: update_conv' map_le_def)
  have u1: "map_of (AList.update ''privacy'' 1.0 ws) \<subseteq>\<^sub>m map_of default_weights"
    by (rule upd) (simp add: default_weights_def)
  have u2: "map_of (AList.update ''security'' 1.0 ws) \<subseteq>\<^sub>m map_of default_weights"
    by (rule upd) (simp add: default_weights_def)
  have u3: "map_of (AList.update ''transparency'' 0.9 ws) \<subseteq>\<^sub>m map_of default_weights"
    by (rule upd) (simp add: default_weights_def)
  have u4: "map_of (AList.update ''autonomy'' 0.9 ws) \<subseteq>\<^sub>m map_of default_weights"
    by (rule upd) (simp add: default_weights_def)
  have u5: "map_of (AList.update ''creativity'' 0.8 ws) \<subseteq>\<^sub>m map_of default_weights"
    by (rule upd) (simp add: default_weights_def)
  show ?thesis
    unfolding seed_weight_def
    by (simp only: u1 u2 u3 u4 u5 assms simp_thms split: if_split)
qed

lemma distinct_seed_weight:
  "distinct (map fst ws) \<Longrightarrow> distinct (map fst (seed_weight ws s))"
  by (simp add: seed_weight_def distinct_update)

lemma foldl_seed_weight:
  "map_of ws \<subseteq>\<^sub>m map_of default_weights \<Longrightarrow> distinct (map fst ws) \<Longrightarrow>
   map_of (foldl seed_weight ws foundation) \<subseteq>\<^sub>m map_of default_weights
   \<and> distinct (map fst (foldl seed_weight ws foundation))"
  by (induction foundation arbitrary: ws) (auto simp: seed_weight_le distinct_seed_weight)

lemma map_of_initial_weights:
  "map_of (u_initialize_principle_weights foundation) = map_of default_weights"
  using foldl_seed_weight [of "[]" foundation]
  by (simp add: u_initialize_principle_weights_def map_of_fill_defaults map_add_absorb)

lemma distinct_initial_weights:
  "distinct (map fst (u_initialize_principle_weights foundation))"
  using foldl_seed_weight [of "[]" foundation]
  by (simp add: u_initialize_principle_weights_def distinct_fill_defaults)

lemma keys_initial_weights:
  "fst ` set (u_initialize_principle_weights foundation) = fst ` set default_weights"
  using map_of_initial_weights [of foundation]
  by (metis dom_map_of_conv_image_fst)

text \<open>
  C9. For every list of foundation statements, \<open>_initialize_principle_weights\<close> returns
  (the model has no error path) a dict whose keys are exactly the nine principles. A
  principle among privacy, security, transparency, autonomy and creativity that occurs,
  letter case aside, inside some statement has its seed weight (1.0, 1.0, 0.9, 0.9, 0.8),
  and every principle that occurs in no statement has the weight of the default table.
\<close>

theorem initial_weights_complete:
  fixes foundation :: "string list"
  defines "weights \<equiv> u_initialize_principle_weights foundation"
  shows "fst ` set weights =
           {''privacy'', ''security'', ''autonomy'', ''transparency'', ''fairness'', ''safety'',
            ''creativity'', ''human_wellbeing'', ''system_integrity''}
         \<and> distinct (map fst weights)
         \<and> ((\<exists>s \<in> set foundation. str_contains ''privacy'' (lower s))
              \<longrightarrow> map_of weights ''privacy'' = Some 1.0)
         \<and> ((\<exists>s \<in> set foundation. str_contains ''security'' (lower s))
              \<longrightarrow> map_of weights ''security'' = Some 1.0)
         \<and> ((\<exists>s \<in> set foundation. str_contains ''transparency'' (lower s))
              \<longrightarrow> map_of weights ''transparency'' = Some 0.9)
         \<and> ((\<exists>s \<in> set foundation. str_contains ''autonomy'' (lower s))
              \<longrightarrow> map_of weights ''autonomy'' = Some 0.9)
         \<and> ((\<exists>s \<in> set foundation. str_contains ''creativity'' (lower s))
              \<longrightarrow> map_of weights ''creativity'' = Some 0.8)
         \<and> (\<forall>p \<in> fst ` set default_weights.
               (\<forall>s \<in> set foundation. \<not> str_contains p (lower s))
                 \<longrightarrow> map_of weights p = map_of default_weights p)"
proof -
  have keys: "fst ` set weights = fst ` set default_weights"
    unfolding weights_def by (rule keys_initial_weights)
  have vals: "map_of weights = map_of default_weights"
    unfolding weights_def by (rule map_of_initial_weights)
  have dist: "distinct (map fst weights)"
    unfolding weights_def by (rule distinct_initial_weights)
  have nine: "fst ` set default_weights =
           {''privacy'', ''security'', ''autonomy'', ''transparency'', ''fairness'', ''safety'',
            ''creativity'', ''human_wellbeing'', ''system_integrity''}"
    by (simp add: default_weights_def)
  show ?thesis
    unfolding vals keys nine using dist by (simp add: default_weights_def)
qed

theorem initial_weights_complete_witness:
  "(\<exists>s \<in> set [''User Privacy'', ''craft''].
      str_contains ''privacy'' (lower s))
   \<and> \<not> (\<exists>s \<in> set [''User Privacy'', ''craft''].
          str_contains ''fairness'' (lower s))
   \<and> map_of (u_initialize_principle_weights [''User Privacy'', ''craft'']) ''privacy''
       = Some 1.0
   \<and> map_of (u_initialize_principle_weights [''User Privacy'', ''craft'']) ''fairness''
       = Some 0.8"
proof -
  let ?F = "[''User Privacy'', ''craft'']"
  have h1: "\<exists>s \<in> set ?F. str_contains ''privacy'' (lower s)"
    by code_simp
  have h2: "\<not> (\<exists>s \<in> set ?F. str_contains ''fairness'' (lower s))"
    by code_simp
  have k: "''fairness'' \<in> fst ` set default_weights"
    and d: "map_of default_weights ''fairness'' = Some 0.8"
    by (simp_all add: default_weights_def)
  from initial_weights_complete [of ?F] h1 h2 k d show ?thesis
    by metis
qed

subsection \<open>The rule checks and the general evaluation\<close>

lemma check_violations_eq:
  "u_check_violations a c =
     (if truthy (sensitive_data_involved c) \<and> \<not> truthy (user_consent c)
      then [''privacy''] else [])
     @ (if truthy (system_modification c) \<and> py_eq_str (scope c) ''global''
        then [''security''] else [])
     @ (if \<not> truthy (user_visible c) \<and> truthy (persistent c) then [''autonomy''] else [])"
  by (simp add: u_check_violations_def Let_def)

lemma check_concerns_eq:
  "u_check_concerns a c =
     (if \<not> truthy (user_visible c) \<and> a \<noteq> ''system_monitor'' \<and> a \<noteq> ''background_task''
      then [''transparency''] else [])
     @ (if \<not> truthy (reversible c)
           \<and> (py_eq_str (scope c) ''system'' \<or> py_eq_str (scope c) ''global'')
        then [''safety''] else [])"
  by (simp add: u_check_concerns_def Let_def)

lemma check_violations_privacy:
  "''privacy'' \<in> set (u_check_violations a c)
     \<longleftrightarrow> truthy (sensitive_data_involved c) \<and> \<not> truthy (user_consent c)"
  by (simp add: check_violations_eq)

lemma evaluate_action_violations:
  assumes "u_check_violations a c \<noteq> []"
  shows "fst (u_evaluate_action ext a c) =
           \<lparr>decision_id = ''decision_'' @ str_int (int_of_float (time_time ext 0)) @ ''_''
                  @ str_int (hash_str ext a mod 10000),
            timestamp = time_time ext 1, d_action_type = a,
            d_actor = actor c, d_context = c, decision = BLOCK, severity = VIOLATION,
            affected_principles = u_check_violations a c,
            reasoning = ''Ethical violations detected: '' @ join '', '' (u_check_violations a c),
            confidence = 0.95, restrictions = [], monitoring_requirements = [],
            escalation_reason = None\<rparr>"
    and "snd (u_evaluate_action ext a c) = [''_check_violations'']"
  using assms by (simp_all add: u_evaluate_action_def Let_def)

lemma evaluate_action_no_violations:
  assumes "u_check_violations a c = []"
  shows "snd (u_evaluate_action ext a c) = [''_check_violations'', ''_check_concerns'']"
  using assms by (simp add: u_evaluate_action_def Let_def)

text \<open>
  C5. For every context whose \<open>sensitive_data_involved\<close> is \<open>True\<close> and whose
  \<open>user_consent\<close>, of the declared type \<open>Optional[bool]\<close>, is not \<open>True\<close> (so \<open>None\<close> or
  \<open>False\<close>), \<open>_check_violations\<close> returns a list that contains privacy, and
  \<open>_evaluate_action\<close> returns a decision with kind block, severity violation and
  confidence 0.95, whose affected principles are just privacy when neither the security
  rule nor the autonomy rule fires.
\<close>

theorem privacy_violation_blocks:
  assumes sensitive: "sensitive_data_involved c = PBool True"
    and consent: "user_consent c = PNone \<or> user_consent c = PBool False"
  shows "''privacy'' \<in> set (u_check_violations a c)
         \<and> decision (fst (u_evaluate_action ext a c)) = BLOCK
         \<and> severity (fst (u_evaluate_action ext a c)) = VIOLATION
         \<and> confidence (fst (u_evaluate_action ext a c)) = 0.95
         \<and> (\<not> (truthy (system_modification c) \<and> py_eq_str (scope c) ''global'')
              \<and> \<not> (\<not> truthy (user_visible c) \<and> truthy (persistent c))
            \<longrightarrow> affected_principles (fst (u_evaluate_action ext a c)) = [''privacy''])"
proof -
  have p: "''privacy'' \<in> set (u_check_violations a c)"
    using sensitive consent by (auto simp: check_violations_privacy)
  then have ne: "u_check_violations a c \<noteq> []" by auto
  have only: "u_check_violations a c = [''privacy'']"
    if "\<not> (truthy (system_modification c) \<and> py_eq_str (scope c) ''global'')"
      and "\<not> (\<not> truthy (user_visible c) \<and> truthy (persistent c))"
    using that sensitive consent by (auto simp: check_violations_eq)
  show ?thesis
    using p only by (simp add: evaluate_action_violations(1) [OF ne])
qed

theorem privacy_violation_blocks_witness:
  "sensitive_data_involved sensitive_context = PBool True
   \<and> user_consent sensitive_context = PBool False
   \<and> u_check_violations ''data_access'' sensitive_context = [''privacy'']
   \<and> decision (fst (u_evaluate_action sample_externals ''data_access'' sensitive_context)) = BLOCK
   \<and> severity (fst (u_evaluate_action sample_externals ''data_access'' sensitive_context))
       = VIOLATION
   \<and> confidence (fst (u_evaluate_action sample_externals ''data_access'' sensitive_context))
       = 0.95
   \<and> affected_principles (fst (u_evaluate_action sample_externals ''data_access'' sensitive_context))
       = [''privacy'']"
proof -
  have h1: "sensitive_data_involved sensitive_context = PBool True"
    and h2: "user_consent sensitive_context = PBool False"
    and h3: "\<not> (truthy (system_modification sensitive_context)
                \<and> py_eq_str (scope sensitive_context) ''global'')"
    and h4: "\<not> (\<not> truthy (user_visible sensitive_context)
                \<and> truthy (persistent sensitive_context))"
    by (simp_all add: sensitive_context_def default_context_def context_post_init_def)
  have v: "u_check_violations ''data_access'' sensitive_context = [''privacy'']"
    by (simp add: check_violations_eq sensitive_context_def default_context_def
          context_post_init_def py_eq_str_def)
  from privacy_violation_blocks [of sensitive_context "''data_access''" sample_externals,
      OF h1 disjI2 [OF h2]] h1 h2 h3 h4 v
  show ?thesis by blast
qed

lemma sensitive_context_fields:
  "sensitive_data_involved sensitive_context = PBool True"
  "user_consent sensitive_context = PBool False"
  "system_modification sensitive_context = PBool False"
  "user_visible sensitive_context = PBool True"
  "persistent sensitive_context = PBool False"
  "reversible sensitive_context = PBool True"
  "scope sensitive_context = PStr ''local''"
  "actor sensitive_context = PStr ''unknown''"
  by (simp_all add: sensitive_context_def default_context_def context_post_init_def)

lemma hidden_sensitive_checks:
  "u_check_violations ''data_access'' (sensitive_context\<lparr>user_visible := PBool False\<rparr>)
     = [''privacy'']"
  "u_check_concerns ''data_access'' (sensitive_context\<lparr>user_visible := PBool False\<rparr>)
     = [''transparency'']"
  by (simp_all add: check_violations_eq check_concerns_eq sensitive_context_fields py_eq_str_def)

text \<open>
  C6, as stated: in the general evaluation a non-empty list of violations always gives
  block and violation, whatever the concerns, and both \<open>_check_violations\<close> and
  \<open>_check_concerns\<close> are run on every general evaluation. The second half fails: on a
  hidden access to sensitive data without consent both rule sets have something to
  report, and \<open>_evaluate_action\<close> returns at line 1885 without calling
  \<open>_check_concerns\<close>.
\<close>

theorem concerns_check_skipped_counterexample:
  "u_check_violations ''data_access'' (sensitive_context\<lparr>user_visible := PBool False\<rparr>) \<noteq> []
   \<and> u_check_concerns ''data_access'' (sensitive_context\<lparr>user_visible := PBool False\<rparr>) \<noteq> []
   \<and> ''_check_concerns''
       \<notin> set (snd (u_evaluate_action sample_externals ''data_access''
                     (sensitive_context\<lparr>user_visible := PBool False\<rparr>)))"
  by (simp add: hidden_sensitive_checks evaluate_action_violations(2))

text \<open>
  C6, amended: \<open>_check_violations\<close> is run on every general evaluation, and a non-empty
  list of violations gives block and violation with exactly these violations as the
  affected principles, whatever the concerns; \<open>_check_concerns\<close> is run only when
  \<open>_check_violations\<close> has found nothing.
\<close>

theorem violations_precede_concerns:
  "snd (u_evaluate_action ext a c) =
     (if u_check_violations a c \<noteq> [] then [''_check_violations'']
      else [''_check_violations'', ''_check_concerns''])
   \<and> (u_check_violations a c \<noteq> [] \<longrightarrow>
        decision (fst (u_evaluate_action ext a c)) = BLOCK
        \<and> severity (fst (u_evaluate_action ext a c)) = VIOLATION
        \<and> affected_principles (fst (u_evaluate_action ext a c)) = u_check_violations a c
        \<and> reasoning (fst (u_evaluate_action ext a c))
            = ''Ethical violations detected: '' @ join '', '' (u_check_violations a c))"
proof (cases "u_check_violations a c = []")
  case True
  then show ?thesis by (simp add: evaluate_action_no_violations)
next
  case False
  then show ?thesis by (simp add: evaluate_action_violations)
qed

theorem violations_precede_concerns_witness:
  "u_check_concerns ''data_access'' (sensitive_context\<lparr>user_visible := PBool False\<rparr>)
     = [''transparency'']
   \<and> decision (fst (u_evaluate_action sample_externals ''data_access''
                      (sensitive_context\<lparr>user_visible := PBool False\<rparr>))) = BLOCK
   \<and> severity (fst (u_evaluate_action sample_externals ''data_access''
                      (sensitive_context\<lparr>user_visible := PBool False\<rparr>))) = VIOLATION
   \<and> affected_principles (fst (u_evaluate_action sample_externals ''data_access''
                      (sensitive_context\<lparr>user_visible := PBool False\<rparr>))) = [''privacy'']
   \<and> reasoning (fst (u_evaluate_action sample_externals ''data_access''
                      (sensitive_context\<lparr>user_visible := PBool False\<rparr>)))
       = ''Ethical violations detected: privacy''
   \<and> snd (u_evaluate_action sample_externals ''data_access''
            (sensitive_context\<lparr>user_visible := PBool False\<rparr>)) = [''_check_violations'']"
  using violations_precede_concerns [of sample_externals "''data_access''"
      "sensitive_context\<lparr>user_visible := PBool False\<rparr>"]
  by (simp add: hidden_sensitive_checks)

subsection \<open>review_decision\<close>

lemma review_context_dict:
  "review_context a (PDict kvs) meta =
     Inr (context_post_init
            \<lparr>action_type = a,
             actor = dict_get kvs ''persona'' (PStr ''unknown''),
             target = dict_get kvs ''target'' PNone,
             scope = dict_get kvs ''scope'' (PStr ''local''),
             user_consent = dict_get kvs ''user_consent'' PNone,
             reversible = dict_get kvs ''reversible'' (PBool True),
             persistent = dict_get kvs ''persistent'' (PBool False),
             sensitive_data_involved = dict_get kvs ''sensitive_data'' (PBool False),
             system_modification = dict_get kvs ''system_modification'' (PBool False),
             user_visible = dict_get kvs ''user_visible'' (PBool True),
             metadata = (if meta = PNone then PDict [] else meta)\<rparr>)"
  by (simp add: review_context_def then_do_def dict_get_def Let_def)

lemma review_context_sensitive_request:
  "review_context ''data_access'' sensitive_request PNone = Inr sensitive_context"
  by (simp add: sensitive_request_def review_context_dict dict_get_def sensitive_context_def
        default_context_def context_post_init_def)

lemma review_fallback_dict:
  "review_fallback ext a (PDict kvs) e =
     Inr \<lparr>decision_id = ''error_'' @ str_int (int_of_float (time_time ext 2)),
          timestamp = time_time ext 3,
          d_action_type = a,
          d_actor = dict_get kvs ''persona'' (PStr ''unknown''),
          d_context = default_context a (PStr ''error''),
          decision = BLOCK,
          severity = CRITICAL,
          affected_principles = [''system_integrity''],
          reasoning = ''Ethical review failed: '' @ str_exn e,
          confidence = 1.0,
          restrictions = [],
          monitoring_requirements = [],
          escalation_reason = Some ''review_system_error''\<rparr>"
  by (simp add: review_fallback_def then_do_def dict_get_def)

lemma review_decision_cases:
  "review_decision ext self a context meta =
     (case review_attempt ext a context meta of
        Inr d \<Rightarrow> (Inr d, self)
      | Inl e \<Rightarrow> (review_fallback ext a context e, self))"
  by (simp add: review_decision_def)

lemma review_attempt_sink:
  assumes "review_context a context meta = Inr c"
  shows "review_attempt ext a context meta =
           (case emit_review ext a c (fst (u_evaluate_action ext a c)) of
              Some e \<Rightarrow> Inl e
            | None \<Rightarrow> Inr (fst (u_evaluate_action ext a c)))"
  using assms by (simp add: review_attempt_def then_do_def Let_def)

text \<open>
  When the context is a dict, the construction of the context cannot fail and the
  handler's own lookup cannot fail: the call returns a decision, and an error \<open>e\<close> of the
  \<open>try\<close> body (the sink raising) gives the decision with kind block, severity critical,
  escalation reason \<open>review_system_error\<close> and the reasoning "Ethical review failed: "
  followed by the text of \<open>e\<close>.
\<close>

lemma review_fails_closed:
  "(\<exists>d. fst (review_decision ext self a (PDict kvs) meta) = Inr d)
   \<and> (\<forall>e. review_attempt ext a (PDict kvs) meta = Inl e \<longrightarrow>
         (\<exists>d. fst (review_decision ext self a (PDict kvs) meta) = Inr d
              \<and> decision d = BLOCK
              \<and> severity d = CRITICAL
              \<and> escalation_reason d = Some ''review_system_error''
              \<and> reasoning d = ''Ethical review failed: '' @ str_exn e))"
  by (cases "review_attempt ext a (PDict kvs) meta")
    (simp_all add: review_decision_cases review_fallback_dict)

lemma review_fails_closed_on_sink_failure:
  "review_attempt failing_sink_externals ''data_access'' sensitive_request PNone
     = Inl (Raised ''sink down'')
   \<and> (\<exists>d. fst (review_decision failing_sink_externals sample_governor ''data_access''
                  sensitive_request PNone) = Inr d
          \<and> decision d = BLOCK
          \<and> severity d = CRITICAL
          \<and> escalation_reason d = Some ''review_system_error''
          \<and> reasoning d = ''Ethical review failed: sink down'')"
proof -
  have att: "review_attempt failing_sink_externals ''data_access'' sensitive_request PNone
               = Inl (Raised ''sink down'')"
    by (simp add: review_attempt_sink [OF review_context_sensitive_request]
          emit_review_def failing_sink_externals_def)
  from review_fails_closed [of failing_sink_externals sample_governor "''data_access''"
      "[(''sensitive_data'', PBool True), (''user_consent'', PBool False)]" PNone]
  have "\<exists>d. fst (review_decision failing_sink_externals sample_governor ''data_access''
                  sensitive_request PNone) = Inr d
          \<and> decision d = BLOCK
          \<and> severity d = CRITICAL
          \<and> escalation_reason d = Some ''review_system_error''
          \<and> reasoning d = ''Ethical review failed: '' @ str_exn (Raised ''sink down'')"
    using att unfolding sensitive_request_def by blast
  with att show ?thesis by simp
qed

text \<open>
  C1. The claim is that, for every action type and every context, an error raised while
  \<open>review_decision\<close> constructs the context or evaluates is not propagated: the call
  returns the decision with kind block, severity critical and escalation reason
  \<open>review_system_error\<close>, and never raises. The code does not do this when the error comes
  from the construction of the context. A context that is \<open>None\<close>, a list or a string
  has no \<open>get\<close>, so the first lookup at line 1824 raises inside the \<open>try\<close>; the handler
  then evaluates \<open>context.get("persona", "unknown")\<close> at line 1859 outside any \<open>try\<close>,
  which raises again, and the \<open>AttributeError\<close> reaches the caller.
\<close>

theorem review_raises_without_dict:
  "review_context a PNone meta
     = Inl (AttributeError (quoted ''NoneType'' @ '' object has no attribute '' @ quoted ''get''))
   \<and> fst (review_decision ext self a PNone meta)
     = Inl (AttributeError (quoted ''NoneType'' @ '' object has no attribute '' @ quoted ''get''))
   \<and> fst (review_decision ext self a (PList xs) meta)
     = Inl (AttributeError (quoted ''list'' @ '' object has no attribute '' @ quoted ''get''))
   \<and> fst (review_decision ext self a (PStr s) meta)
     = Inl (AttributeError (quoted ''str'' @ '' object has no attribute '' @ quoted ''get''))"
  by (simp add: review_decision_def review_attempt_def review_context_def review_fallback_def
        then_do_def Let_def)

text \<open>
  C10. Every call of \<open>review_decision\<close>, whether it returns the evaluated decision or
  the fallback, leaves the governor as it was (history, metrics and principle weights
  included), and its result does not depend on the governor at all, so no registered
  interceptor is consulted: when the context is built and the sink returns, the result is
  the decision of the general evaluation \<open>_evaluate_action\<close>.
\<close>

theorem review_leaves_governor:
  "snd (review_decision ext self a context meta) = self
   \<and> decision_history (snd (review_decision ext self a context meta)) = decision_history self
   \<and> ethical_metrics (snd (review_decision ext self a context meta)) = ethical_metrics self
   \<and> principle_weights (snd (review_decision ext self a context meta)) = principle_weights self
   \<and> fst (review_decision ext self a context meta)
       = fst (review_decision ext other a context meta)
   \<and> (\<forall>c. review_context a context meta = Inr c
            \<and> emit_review ext a c (fst (u_evaluate_action ext a c)) = None
          \<longrightarrow> fst (review_decision ext self a context meta)
                = Inr (fst (u_evaluate_action ext a c)))"
proof -
  have frame: "snd (review_decision ext self a context meta) = self"
    by (simp add: review_decision_cases split: sum.split)
  have same: "fst (review_decision ext self a context meta)
                = fst (review_decision ext other a context meta)"
    by (simp add: review_decision_cases split: sum.split)
  have general: "fst (review_decision ext self a context meta)
                   = Inr (fst (u_evaluate_action ext a c))"
    if "review_context a context meta = Inr c"
      and "emit_review ext a c (fst (u_evaluate_action ext a c)) = None" for c
    using that by (simp add: review_decision_cases review_attempt_sink)
  show ?thesis
    using same general by (simp add: frame)
qed

theorem review_leaves_governor_witness:
  "map_of (action_interceptors sample_governor) ''data_access'' = Some sample_evaluator
   \<and> snd (review_decision sample_externals sample_governor ''data_access''
            sensitive_request PNone) = sample_governor
   \<and> (\<exists>d. fst (review_decision sample_externals sample_governor ''data_access''
                  sensitive_request PNone) = Inr d
          \<and> decision d = BLOCK \<and> affected_principles d = [''privacy''])"
proof -
  have reg: "map_of (action_interceptors sample_governor) ''data_access''
               = Some sample_evaluator"
    by (simp add: sample_governor_def)
  have sink: "emit_review sample_externals ''data_access'' sensitive_context
                (fst (u_evaluate_action sample_externals ''data_access'' sensitive_context))
              = None"
    by (simp add: emit_review_def sample_externals_def)
  have v: "u_check_violations ''data_access'' sensitive_context = [''privacy'']"
    by (simp add: check_violations_eq sensitive_context_def default_context_def
          context_post_init_def py_eq_str_def)
  note t = review_leaves_governor [of sample_externals sample_governor "''data_access''"
      sensitive_request PNone sample_governor]
  from t have frame: "snd (review_decision sample_externals sample_governor ''data_access''
            sensitive_request PNone) = sample_governor"
    by blast
  from t review_context_sensitive_request sink
  have res: "fst (review_decision sample_externals sample_governor ''data_access''
                  sensitive_request PNone)
             = Inr (fst (u_evaluate_action sample_externals ''data_access'' sensitive_context))"
    by blast
  show ?thesis
    using reg frame by (simp add: res evaluate_action_violations(1) v)
qed

subsection \<open>evaluate_action while governance is inactive\<close>

lemma evaluate_action_inactive:
  assumes "\<not> governance_active self"
  shows "evaluate_action ext self a who action_data context =
           (Inr \<lparr>decision_id = generate_decision_id ext a who,
                 timestamp = time_time ext 0,
                 d_action_type = a,
                 d_actor = PStr who,
                 d_context = (case context of
                                None \<Rightarrow> default_context a (PStr who)
                              | Some given \<Rightarrow> given),
                 decision = ALLOW,
                 severity = INFO,
                 affected_principles = [],
                 reasoning = ''Ethical governance not active'',
                 confidence = 1.0,
                 restrictions = [],
                 monitoring_requirements = [],
                 escalation_reason = None\<rparr>,
            self)"
  using assms by (simp add: evaluate_action_def)

lemma review_decision_sensitive_request:
  "fst (review_decision sample_externals self ''data_access'' sensitive_request PNone)
     = Inr (fst (u_evaluate_action sample_externals ''data_access'' sensitive_context))"
  by (simp add: review_decision_cases
        review_attempt_sink [OF review_context_sensitive_request]
        emit_review_def sample_externals_def)

lemma sensitive_context_violations:
  "u_check_violations ''data_access'' sensitive_context = [''privacy'']"
  by (simp add: check_violations_eq sensitive_context_def default_context_def
        context_post_init_def py_eq_str_def)

text \<open>
  C3, as stated: while \<open>governance_active\<close> is false, every action submitted through
  either entry point is allowed and no check runs. For \<open>review_decision\<close> this fails:
  on a governor that was never activated, the review of an access to sensitive data
  without consent runs \<open>_check_violations\<close> and blocks.
\<close>

theorem inactive_review_blocks_counterexample:
  "\<not> governance_active sample_governor
   \<and> (\<exists>d. fst (review_decision sample_externals sample_governor ''data_access''
                  sensitive_request PNone) = Inr d
          \<and> decision d = BLOCK
          \<and> severity d = VIOLATION
          \<and> affected_principles d = [''privacy''])
   \<and> snd (u_evaluate_action sample_externals ''data_access'' sensitive_context)
       = [''_check_violations'']"
  by (simp add: sample_governor_def review_decision_sensitive_request
        evaluate_action_violations sensitive_context_violations)

text \<open>
  C3, amended: while \<open>governance_active\<close> is false, every action submitted through
  \<open>evaluate_action\<close> is allowed, and neither an interceptor nor the general evaluation
  nor the context inference is consulted (the result is the same whatever they are);
  \<open>review_decision\<close> does not read \<open>governance_active\<close>: it returns for an inactive
  governor what it returns for an active one, and it runs the rule checks all the same:
  once the context is built, the general evaluation is made, which calls
  \<open>_check_violations\<close> and blocks on a violation, and when the sink returns its decision
  is the result of the review.
\<close>

theorem inactive_bypass_in_evaluate_only:
  assumes "\<not> governance_active self"
  shows "(\<exists>d. evaluate_action ext self a who action_data context = (Inr d, self)
              \<and> decision d = ALLOW \<and> severity d = INFO \<and> affected_principles d = [])
         \<and> fst (evaluate_action ext self a who action_data context)
             = fst (evaluate_action
                      (ext\<lparr>infer_context := inference, general_ethical_evaluation := general\<rparr>)
                      (self\<lparr>action_interceptors := registry\<rparr>) a who action_data context)
         \<and> fst (review_decision ext self a request meta)
             = fst (review_decision ext (self\<lparr>governance_active := True\<rparr>) a request meta)
         \<and> (\<forall>c. review_context a request meta = Inr c \<longrightarrow>
               ''_check_violations'' \<in> set (snd (u_evaluate_action ext a c))
               \<and> (u_check_violations a c \<noteq> [] \<longrightarrow>
                    decision (fst (u_evaluate_action ext a c)) = BLOCK)
               \<and> (emit_review ext a c (fst (u_evaluate_action ext a c)) = None \<longrightarrow>
                    fst (review_decision ext self a request meta)
                      = Inr (fst (u_evaluate_action ext a c))))"
proof -
  have "\<not> governance_active (self\<lparr>action_interceptors := registry\<rparr>)"
    using assms by simp
  then have bypass:
    "(\<exists>d. evaluate_action ext self a who action_data context = (Inr d, self)
              \<and> decision d = ALLOW \<and> severity d = INFO \<and> affected_principles d = [])
     \<and> fst (evaluate_action ext self a who action_data context)
         = fst (evaluate_action
                  (ext\<lparr>infer_context := inference, general_ethical_evaluation := general\<rparr>)
                  (self\<lparr>action_interceptors := registry\<rparr>) a who action_data context)
     \<and> fst (review_decision ext self a request meta)
         = fst (review_decision ext (self\<lparr>governance_active := True\<rparr>) a request meta)"
    using assms
    by (simp add: evaluate_action_inactive review_decision_cases split: sum.split)
  have trace: "''_check_violations'' \<in> set (snd (u_evaluate_action ext a c))" for c
    by (cases "u_check_violations a c = []")
      (simp_all add: evaluate_action_no_violations evaluate_action_violations(2))
  have blocks: "decision (fst (u_evaluate_action ext a c)) = BLOCK"
    if "u_check_violations a c \<noteq> []" for c
    using that by (simp add: evaluate_action_violations(1))
  have general: "fst (review_decision ext self a request meta)
                   = Inr (fst (u_evaluate_action ext a c))"
    if "review_context a request meta = Inr c"
      and "emit_review ext a c (fst (u_evaluate_action ext a c)) = None" for c
    using that by (simp add: review_decision_cases review_attempt_sink)
  from bypass trace blocks general show ?thesis
    by (intro conjI allI impI) (elim conjE, assumption)+
qed

theorem inactive_bypass_in_evaluate_only_witness:
  "\<not> governance_active sample_governor
   \<and> (\<exists>d. evaluate_action sample_externals sample_governor ''data_access'' ''agent''
              sensitive_request (Some sensitive_context) = (Inr d, sample_governor)
          \<and> decision d = ALLOW \<and> severity d = INFO \<and> affected_principles d = [])
   \<and> fst (review_decision sample_externals sample_governor ''data_access''
            sensitive_request PNone)
       = fst (review_decision sample_externals (sample_governor\<lparr>governance_active := True\<rparr>)
                ''data_access'' sensitive_request PNone)
   \<and> review_context ''data_access'' sensitive_request PNone = Inr sensitive_context
   \<and> ''_check_violations''
       \<in> set (snd (u_evaluate_action sample_externals ''data_access'' sensitive_context))
   \<and> decision (fst (u_evaluate_action sample_externals ''data_access'' sensitive_context))
       = BLOCK
   \<and> fst (review_decision sample_externals sample_governor ''data_access''
            sensitive_request PNone)
       = Inr (fst (u_evaluate_action sample_externals ''data_access'' sensitive_context))"
proof -
  have h: "\<not> governance_active sample_governor"
    by (simp add: sample_governor_def)
  have sink: "emit_review sample_externals ''data_access'' sensitive_context
                (fst (u_evaluate_action sample_externals ''data_access'' sensitive_context))
              = None"
    by (simp add: emit_review_def sample_externals_def)
  have v: "u_check_violations ''data_access'' sensitive_context \<noteq> []"
    by (simp add: sensitive_context_violations)
  note t = inactive_bypass_in_evaluate_only [OF h, of sample_externals "''data_access''"
      "''agent''" sensitive_request "Some sensitive_context" _ _ _ sensitive_request PNone]
  note p1 = t [THEN conjunct1]
  note p3 = t [THEN conjunct2, THEN conjunct2, THEN conjunct1]
  note p4 = t [THEN conjunct2, THEN conjunct2, THEN conjunct2, THEN spec, THEN mp,
      OF review_context_sensitive_request]
  note p5 = p4 [THEN conjunct1]
  note p6 = p4 [THEN conjunct2, THEN conjunct1, THEN mp, OF v]
  note p7 = p4 [THEN conjunct2, THEN conjunct2, THEN mp, OF sink]
  show ?thesis
    by (intro conjI h p1 p3 review_context_sensitive_request p5 p6 p7)
qed

text \<open>
  C4, as stated: \<open>evaluate_action\<close> on a governor whose \<open>governance_active\<close> is false
  returns a decision with kind allow, severity info and the reasoning "governance not
  active", and leaves history and metrics unchanged. The reasoning string is another one:
  line 1749 writes "Ethical governance not active".
\<close>

theorem inactive_reasoning_text_counterexample:
  "\<not> governance_active sample_governor
   \<and> (\<exists>d. fst (evaluate_action sample_externals sample_governor ''data_access'' ''agent''
                  sensitive_request None) = Inr d
          \<and> reasoning d = ''Ethical governance not active''
          \<and> reasoning d \<noteq> ''governance not active'')"
proof -
  have h: "\<not> governance_active sample_governor"
    by (simp add: sample_governor_def)
  show ?thesis
    using h by (simp add: evaluate_action_inactive [OF h])
qed

text \<open>
  C4, amended: for every action type, actor and action data, \<open>evaluate_action\<close> on a
  governor whose \<open>governance_active\<close> is false returns a decision with kind allow,
  severity info and the reasoning "Ethical governance not active" (which ends with the
  words "governance not active"), and leaves the governor as it was: the decision history
  and every counter of \<open>ethical_metrics\<close>, \<open>total_decisions\<close> among them, are unchanged.
\<close>

theorem inactive_evaluate_allows:
  assumes "\<not> governance_active self"
  shows "\<exists>d. fst (evaluate_action ext self a who action_data context) = Inr d
             \<and> decision d = ALLOW
             \<and> severity d = INFO
             \<and> reasoning d = ''Ethical governance not active''
             \<and> suffix ''governance not active'' (reasoning d)
             \<and> snd (evaluate_action ext self a who action_data context) = self
             \<and> decision_history (snd (evaluate_action ext self a who action_data context))
                 = decision_history self
             \<and> ethical_metrics (snd (evaluate_action ext self a who action_data context))
                 = ethical_metrics self
             \<and> total_decisions
                   (ethical_metrics (snd (evaluate_action ext self a who action_data context)))
                 = total_decisions (ethical_metrics self)"
proof -
  have "suffix ''governance not active'' (''Ethical '' @ ''governance not active'')"
    by (rule suffix_appendI) simp
  then have "suffix ''governance not active'' ''Ethical governance not active''"
    by simp
  then show ?thesis
    by (simp add: evaluate_action_inactive [OF assms])
qed

theorem inactive_evaluate_allows_witness:
  "\<not> governance_active sample_governor
   \<and> (\<exists>d. fst (evaluate_action sample_externals sample_governor ''data_access'' ''agent''
                  sensitive_request None) = Inr d
          \<and> decision d = ALLOW
          \<and> severity d = INFO
          \<and> reasoning d = ''Ethical governance not active'')
   \<and> snd (evaluate_action sample_externals sample_governor ''data_access'' ''agent''
            sensitive_request None) = sample_governor"
proof -
  have h: "\<not> governance_active sample_governor"
    by (simp add: sample_governor_def)
  from inactive_evaluate_allows [OF h, of sample_externals "''data_access''" "''agent''"
      sensitive_request None] h
  show ?thesis by blast
qed

subsection \<open>evaluate_action while governance is active\<close>

lemma learn_frame:
  "decision_history (learn ext s d) = decision_history s"
  "governance_active (learn ext s d) = governance_active s"
  "action_interceptors (learn ext s d) = action_interceptors s"
  "total_decisions (ethical_metrics (learn ext s d)) = total_decisions (ethical_metrics s)"
  by (simp_all add: learn_def split: prod.split)

lemma total_decisions_count_kind:
  "total_decisions (count_kind m d) = total_decisions m"
  by (simp add: count_kind_def)

lemma evaluate_action_active_raises:
  assumes "governance_active self"
    and "resolve_decision ext self a who action_data context = Inl e"
  shows "evaluate_action ext self a who action_data context = (Inl e, self)"
  using assms by (simp add: evaluate_action_def)

lemma evaluate_action_active_sink_raises:
  assumes "governance_active self"
    and "resolve_decision ext self a who action_data context = Inr d"
    and "emit_decision ext d = Some e"
  shows "fst (evaluate_action ext self a who action_data context) = Inl e"
    and "decision_history (snd (evaluate_action ext self a who action_data context))
           = deque_append 10000 (decision_history self) d"
    and "total_decisions (ethical_metrics (snd (evaluate_action ext self a who action_data context)))
           = total_decisions (ethical_metrics self) + 1"
    and "principle_weights (snd (evaluate_action ext self a who action_data context))
           = principle_weights self"
  using assms by (simp_all add: evaluate_action_def Let_def total_decisions_count_kind)

lemma evaluate_action_active_returns:
  assumes "governance_active self"
    and "resolve_decision ext self a who action_data context = Inr d"
    and "emit_decision ext d = None"
  shows "fst (evaluate_action ext self a who action_data context) = Inr d"
    and "decision_history (snd (evaluate_action ext self a who action_data context))
           = deque_append 10000 (decision_history self) d"
    and "total_decisions (ethical_metrics (snd (evaluate_action ext self a who action_data context)))
           = total_decisions (ethical_metrics self) + 1"
  using assms
  by (simp_all add: evaluate_action_def Let_def total_decisions_count_kind learn_frame)

lemma resolve_sample_call:
  "resolve_decision ext (sample_governor\<lparr>governance_active := True\<rparr>) ''user_interact''
     ''agent'' (PDict []) None
   = general_ethical_evaluation ext ''user_interact'' ''agent'' (PDict [])
       (infer_context ext ''user_interact'' ''agent'' (PDict []))
       (generate_decision_id ext ''user_interact'' ''agent'')"
  by (simp add: resolve_decision_def sample_governor_def)

text \<open>
  C7, as stated: a failure of the awareness sink is never surfaced to the caller of
  \<open>evaluate_action\<close>, which still returns its decision. This fails: the call of
  \<open>perceive_ethical_decision\<close> at line 1784 has no handler, so on an active governor
  whose evaluator returned a decision, a sink that raises makes \<open>evaluate_action\<close> raise.
\<close>

theorem sink_failure_surfaces_counterexample:
  "governance_active (sample_governor\<lparr>governance_active := True\<rparr>)
   \<and> resolve_decision failing_sink_externals (sample_governor\<lparr>governance_active := True\<rparr>)
         ''user_interact'' ''agent'' (PDict []) None
       = Inr (sample_decision ''agent'' (default_context ''user_interact'' (PStr ''agent''))
                ''ethical_1'')
   \<and> fst (evaluate_action failing_sink_externals (sample_governor\<lparr>governance_active := True\<rparr>)
            ''user_interact'' ''agent'' (PDict []) None)
       = Inl (Raised ''sink down'')"
proof -
  have r: "resolve_decision failing_sink_externals (sample_governor\<lparr>governance_active := True\<rparr>)
             ''user_interact'' ''agent'' (PDict []) None
           = Inr (sample_decision ''agent'' (default_context ''user_interact'' (PStr ''agent''))
                    ''ethical_1'')"
    by (simp add: resolve_sample_call failing_sink_externals_def sample_externals_def
          sample_evaluator_def)
  have s: "emit_decision failing_sink_externals d = Some (Raised ''sink down'')" for d
    by (simp add: emit_decision_def failing_sink_externals_def)
  show ?thesis
    using r evaluate_action_active_sink_raises(1) [OF _ r s] by simp
qed

text \<open>
  C7, amended: on an active governor whose evaluator has returned a decision,
  \<open>evaluate_action\<close> returns that decision when the sink call returns; when the sink
  call raises, the error propagates to the caller of \<open>evaluate_action\<close>, after the
  decision was appended to the history and counted in \<open>total_decisions\<close> and before any
  learning.
\<close>

theorem sink_outcome_decides:
  assumes "governance_active self"
    and "resolve_decision ext self a who action_data context = Inr d"
  shows "(emit_decision ext d = None \<longrightarrow>
            fst (evaluate_action ext self a who action_data context) = Inr d)
         \<and> (\<forall>e. emit_decision ext d = Some e \<longrightarrow>
               fst (evaluate_action ext self a who action_data context) = Inl e
               \<and> decision_history (snd (evaluate_action ext self a who action_data context))
                   = deque_append 10000 (decision_history self) d
               \<and> total_decisions
                     (ethical_metrics (snd (evaluate_action ext self a who action_data context)))
                   = total_decisions (ethical_metrics self) + 1
               \<and> principle_weights (snd (evaluate_action ext self a who action_data context))
                   = principle_weights self)"
  using evaluate_action_active_returns(1) [OF assms]
    evaluate_action_active_sink_raises [OF assms]
  by blast

theorem sink_outcome_decides_witness:
  "emit_decision sample_externals
       (sample_decision ''agent'' (default_context ''user_interact'' (PStr ''agent''))
          ''ethical_1'') = None
   \<and> fst (evaluate_action sample_externals (sample_governor\<lparr>governance_active := True\<rparr>)
            ''user_interact'' ''agent'' (PDict []) None)
       = Inr (sample_decision ''agent'' (default_context ''user_interact'' (PStr ''agent''))
                ''ethical_1'')
   \<and> emit_decision failing_sink_externals
       (sample_decision ''agent'' (default_context ''user_interact'' (PStr ''agent''))
          ''ethical_1'') = Some (Raised ''sink down'')
   \<and> decision_history
         (snd (evaluate_action failing_sink_externals
                 (sample_governor\<lparr>governance_active := True\<rparr>)
                 ''user_interact'' ''agent'' (PDict []) None))
       = [sample_decision ''agent'' (default_context ''user_interact'' (PStr ''agent''))
            ''ethical_1'']"
proof -
  let ?g = "sample_governor\<lparr>governance_active := True\<rparr>"
  let ?d = "sample_decision ''agent'' (default_context ''user_interact'' (PStr ''agent''))
              ''ethical_1''"
  have a: "governance_active ?g" by simp
  have r1: "resolve_decision sample_externals ?g ''user_interact'' ''agent'' (PDict []) None
              = Inr ?d"
    by (simp add: resolve_sample_call sample_externals_def sample_evaluator_def)
  have r2: "resolve_decision failing_sink_externals ?g ''user_interact'' ''agent'' (PDict [])
              None = Inr ?d"
    by (simp add: resolve_sample_call failing_sink_externals_def sample_externals_def
          sample_evaluator_def)
  have s1: "emit_decision sample_externals ?d = None"
    by (simp add: emit_decision_def sample_externals_def)
  have s2: "emit_decision failing_sink_externals ?d = Some (Raised ''sink down'')"
    by (simp add: emit_decision_def failing_sink_externals_def)
  have h: "decision_history ?g = []"
    by (simp add: sample_governor_def)
  from sink_outcome_decides [OF a r1] s1
  have c1: "fst (evaluate_action sample_externals ?g ''user_interact'' ''agent'' (PDict []) None)
              = Inr ?d"
    by blast
  from sink_outcome_decides [OF a r2] s2
  have c2: "decision_history
              (snd (evaluate_action failing_sink_externals ?g ''user_interact'' ''agent''
                      (PDict []) None))
            = deque_append 10000 (decision_history ?g) ?d"
    by blast
  show ?thesis
    using s1 s2 c1 by (simp add: c2 h deque_append_def)
qed

subsection \<open>The bounded decision history\<close>

lemma deque_append_window:
  assumes "length xs \<le> m"
  shows "deque_append m xs x = drop (length (xs @ [x]) - m) (xs @ [x])"
proof (cases "length xs < m")
  case True
  then show ?thesis by (simp add: deque_append_def Let_def)
next
  case False
  with assms have full: "length xs = m" by simp
  then have "deque_append m xs x = tl (xs @ [x])"
    by (simp add: deque_append_def Let_def)
  also have "\<dots> = drop (Suc 0) (xs @ [x])"
    by (simp only: drop_Suc drop_0)
  also have "Suc 0 = length (xs @ [x]) - m"
    using full by simp
  finally show ?thesis .
qed

lemma window_length: "length (drop (length xs - m) xs) = min (length xs) m"
  by (simp add: min_def)

lemma window_idem:
  "drop (length (drop (length xs - m) xs @ ys) - m) (drop (length xs - m) xs @ ys)
     = drop (length (xs @ ys) - m) (xs @ ys)"
proof (cases "length xs \<le> m")
  case True
  then show ?thesis by simp
next
  case False
  then have k: "length xs - (length xs - m) = m" by simp
  have "drop (length (drop (length xs - m) xs @ ys) - m) (drop (length xs - m) xs @ ys)
          = drop (length ys) (drop (length xs - m) (xs @ ys))"
    using False by (simp add: k)
  also have "\<dots> = drop (length ys + (length xs - m)) (xs @ ys)"
    by (simp only: drop_drop)
  also have "length ys + (length xs - m) = length (xs @ ys) - m"
    using False by simp
  finally show ?thesis .
qed

lemma evaluate_action_keeps_active:
  "governance_active self \<Longrightarrow>
   governance_active (snd (evaluate_action ext self a who action_data context))"
  by (simp add: evaluate_action_def Let_def learn_frame split: sum.split option.split)

lemma evaluate_action_history:
  assumes "governance_active self"
  shows "decision_history (snd (evaluate_action ext self a who action_data context)) =
           (case resolve_decision ext self a who action_data context of
              Inl e \<Rightarrow> decision_history self
            | Inr d \<Rightarrow> deque_append 10000 (decision_history self) d)"
  using assms
  by (simp add: evaluate_action_def Let_def learn_frame split: sum.split option.split)

lemma evaluate_action_history_window:
  assumes "governance_active self" and "length (decision_history self) \<le> 10000"
  shows "decision_history (snd (evaluate_action ext self a who action_data context)) =
           drop (length (decision_history self
                          @ (case resolve_decision ext self a who action_data context of
                               Inl e \<Rightarrow> [] | Inr d \<Rightarrow> [d])) - 10000)
             (decision_history self
                @ (case resolve_decision ext self a who action_data context of
                     Inl e \<Rightarrow> [] | Inr d \<Rightarrow> [d]))"
proof (cases "resolve_decision ext self a who action_data context")
  case (Inl e)
  then show ?thesis
    using assms by (simp add: evaluate_action_history)
next
  case (Inr d)
  then show ?thesis
    using assms deque_append_window [OF assms(2), of d]
    by (simp add: evaluate_action_history)
qed

lemma run_evaluations_window:
  "governance_active self \<Longrightarrow> length (decision_history self) \<le> 10000 \<Longrightarrow>
   decision_history (run_evaluations self calls) =
     drop (length (decision_history self @ recorded_decisions self calls) - 10000)
       (decision_history self @ recorded_decisions self calls)"
proof (induction calls arbitrary: self)
  case Nil
  then show ?case by simp
next
  case (Cons c cs)
  let ?next = "snd (evaluate_action (call_ext c) self (call_action_type c) (call_actor c)
                     (call_action_data c) (call_context c))"
  let ?ds = "case resolve_decision (call_ext c) self (call_action_type c) (call_actor c)
                    (call_action_data c) (call_context c) of
               Inl e \<Rightarrow> [] | Inr d \<Rightarrow> [d]"
  have active: "governance_active ?next"
    using Cons.prems(1) by (rule evaluate_action_keeps_active)
  have hist: "decision_history ?next =
                drop (length (decision_history self @ ?ds) - 10000) (decision_history self @ ?ds)"
    using Cons.prems by (rule evaluate_action_history_window)
  have bound: "length (decision_history ?next) \<le> 10000"
    unfolding hist by simp
  have "decision_history (run_evaluations self (c # cs)) =
          decision_history (run_evaluations ?next cs)"
    by simp
  also have "\<dots> = drop (length (decision_history ?next @ recorded_decisions ?next cs) - 10000)
                      (decision_history ?next @ recorded_decisions ?next cs)"
    using active bound by (rule Cons.IH)
  also have "\<dots> = drop (length ((decision_history self @ ?ds) @ recorded_decisions ?next cs)
                            - 10000)
                      ((decision_history self @ ?ds) @ recorded_decisions ?next cs)"
    unfolding hist by (rule window_idem)
  also have "(decision_history self @ ?ds) @ recorded_decisions ?next cs
               = decision_history self @ recorded_decisions self (c # cs)"
    by simp
  finally show ?case .
qed

text \<open>
  C8. On an active governor whose history holds at most 10,000 entries (the history of
  a new governor is empty), after any sequence of calls of \<open>evaluate_action\<close> the
  history is the last 10,000 of all the decisions recorded so far, in the order in which
  they were recorded: it never holds more than 10,000 entries, and it holds exactly
  10,000 as soon as more than 10,000 decisions have been recorded.
\<close>

theorem history_keeps_latest:
  assumes "governance_active self" and "length (decision_history self) \<le> 10000"
  shows "decision_history (run_evaluations self calls) =
           drop (length (decision_history self @ recorded_decisions self calls) - 10000)
             (decision_history self @ recorded_decisions self calls)
         \<and> length (decision_history (run_evaluations self calls)) \<le> 10000
         \<and> length (decision_history (run_evaluations self calls)) =
             min (length (decision_history self @ recorded_decisions self calls)) 10000"
proof -
  note w = run_evaluations_window [OF assms, of calls]
  show ?thesis
    unfolding w by (simp only: window_length simp_thms min.cobounded2)
qed

theorem history_keeps_latest_witness:
  "governance_active full_governor
   \<and> length (decision_history full_governor) = 10000
   \<and> recorded_decisions full_governor [sample_call]
       = [sample_decision ''agent'' (default_context ''user_interact'' (PStr ''agent''))
            ''ethical_1'']
   \<and> decision_history (run_evaluations full_governor [sample_call])
       = replicate 9999 (sample_decision ''agent'' sensitive_context ''ethical_0'')
         @ [sample_decision ''agent'' (default_context ''user_interact'' (PStr ''agent''))
              ''ethical_1'']
   \<and> length (decision_history (run_evaluations full_governor [sample_call])) = 10000"
proof -
  let ?d0 = "sample_decision ''agent'' sensitive_context ''ethical_0''"
  let ?d1 = "sample_decision ''agent'' (default_context ''user_interact'' (PStr ''agent''))
               ''ethical_1''"
  have a: "governance_active full_governor"
    by (simp add: full_governor_def)
  have h: "decision_history full_governor = replicate 10000 ?d0"
    by (simp add: full_governor_def)
  have l: "length (decision_history full_governor) \<le> 10000"
    by (simp add: h)
  have r: "recorded_decisions full_governor [sample_call] = [?d1]"
    by (simp add: resolve_decision_def full_governor_def sample_governor_def sample_call_def
          sample_externals_def sample_evaluator_def)
  have d: "drop (Suc 0) (replicate 10000 ?d0) = replicate 9999 ?d0"
    by simp
  from history_keeps_latest [OF a l, of "[sample_call]"]
  have "decision_history (run_evaluations full_governor [sample_call])
          = drop (length (replicate 10000 ?d0 @ [?d1]) - 10000) (replicate 10000 ?d0 @ [?d1])"
    unfolding r h by blast
  then have res: "decision_history (run_evaluations full_governor [sample_call])
          = replicate 9999 ?d0 @ [?d1]"
    by (simp add: d)
  show ?thesis
  proof (intro conjI)
    show "governance_active full_governor" by (rule a)
    show "length (decision_history full_governor) = 10000" by (simp add: h)
    show "recorded_decisions full_governor [sample_call] = [?d1]" by (rule r)
    show "decision_history (run_evaluations full_governor [sample_call])
            = replicate 9999 ?d0 @ [?d1]"
      by (rule res)
    show "length (decision_history (run_evaluations full_governor [sample_call])) = 10000"
      unfolding res by simp
  qed
qed

subsection \<open>Construction\<close>

lemma getattr_method_defined:
  "map_of methods name = Some f \<Longrightarrow> getattr_method methods name = Inr f"
  by (simp add: getattr_method_def)


lemma setup_core_interceptors_defined:
  assumes "map_of methods ''_evaluate_data_access'' = Some f1"
    and "map_of methods ''_evaluate_system_modification'' = Some f2"
    and "map_of methods ''_evaluate_user_interaction'' = Some f3"
    and "map_of methods ''_evaluate_ai_decision'' = Some f4"
    and "map_of methods ''_evaluate_network_communication'' = Some f5"
  shows "u_setup_core_interceptors methods self =
           Inr (register_interceptor
                  (register_interceptor
                     (register_interceptor
                        (register_interceptor
                           (register_interceptor self ''data_access'' f1)
                           ''system_modify'' f2)
                        ''user_interact'' f3)
                     ''ai_decision'' f4)
                  ''network_communicate'' f5)"
  by (simp add: u_setup_core_interceptors_def then_do_def Let_def
        getattr_method_defined [OF assms(1)] getattr_method_defined [OF assms(2)]
        getattr_method_defined [OF assms(3)] getattr_method_defined [OF assms(4)]
        getattr_method_defined [OF assms(5)])

lemma then_do_getattr_raises:
  fixes k :: "interceptor \<Rightarrow> exn + EthicalGovernor"
  assumes "map_of methods name = None \<or> (\<forall>f. \<exists>m. k f = Inl (AttributeError m))"
  shows "\<exists>m. then_do (getattr_method methods name) k = Inl (AttributeError m)"
proof (cases "map_of methods name")
  case None
  then show ?thesis by (simp add: getattr_method_def then_do_def)
next
  case (Some f)
  with assms have "\<exists>m. k f = Inl (AttributeError m)" by simp
  with Some show ?thesis by (simp add: getattr_method_def then_do_def)
qed

lemma core_evaluator_names_ball:
  "(\<forall>name \<in> set core_evaluator_names. P name) \<longleftrightarrow>
     P ''_evaluate_data_access'' \<and> P ''_evaluate_system_modification''
     \<and> P ''_evaluate_user_interaction'' \<and> P ''_evaluate_ai_decision''
     \<and> P ''_evaluate_network_communication''"
  unfolding core_evaluator_names_def by (simp only: list.set ball_simps simp_thms)

lemma core_evaluator_names_bex:
  "(\<exists>name \<in> set core_evaluator_names. P name) \<longleftrightarrow>
     P ''_evaluate_data_access'' \<or> P ''_evaluate_system_modification''
     \<or> P ''_evaluate_user_interaction'' \<or> P ''_evaluate_ai_decision''
     \<or> P ''_evaluate_network_communication''"
  unfolding core_evaluator_names_def by (simp only: list.set bex_simps simp_thms)

lemma setup_core_interceptors_undefined:
  assumes "\<exists>name \<in> set core_evaluator_names. map_of methods name = None"
  shows "\<exists>m. u_setup_core_interceptors methods self = Inl (AttributeError m)"
proof -
  from assms consider
      (first) "map_of methods ''_evaluate_data_access'' = None"
    | (second) "map_of methods ''_evaluate_system_modification'' = None"
    | (third) "map_of methods ''_evaluate_user_interaction'' = None"
    | (fourth) "map_of methods ''_evaluate_ai_decision'' = None"
    | (fifth) "map_of methods ''_evaluate_network_communication'' = None"
    unfolding core_evaluator_names_bex by (elim disjE)
  then show ?thesis
  proof cases
    case first
    show ?thesis
      unfolding u_setup_core_interceptors_def Let_def
      by (rule then_do_getattr_raises, rule disjI1, rule first)
  next
    case second
    show ?thesis
      unfolding u_setup_core_interceptors_def Let_def
      by (rule then_do_getattr_raises, rule disjI2, rule allI,
          rule then_do_getattr_raises, rule disjI1, rule second)
  next
    case third
    show ?thesis
      unfolding u_setup_core_interceptors_def Let_def
      by (rule then_do_getattr_raises, rule disjI2, rule allI,
          rule then_do_getattr_raises, rule disjI2, rule allI,
          rule then_do_getattr_raises, rule disjI1, rule third)
  next
    case fourth
    show ?thesis
      unfolding u_setup_core_interceptors_def Let_def
      by (rule then_do_getattr_raises, rule disjI2, rule allI,
          rule then_do_getattr_raises, rule disjI2, rule allI,
          rule then_do_getattr_raises, rule disjI2, rule allI,
          rule then_do_getattr_raises, rule disjI1, rule fourth)
  next
    case fifth
    show ?thesis
      unfolding u_setup_core_interceptors_def Let_def
      by (rule then_do_getattr_raises, rule disjI2, rule allI,
          rule then_do_getattr_raises, rule disjI2, rule allI,
          rule then_do_getattr_raises, rule disjI2, rule allI,
          rule then_do_getattr_raises, rule disjI2, rule allI,
          rule then_do_getattr_raises, rule disjI1, rule fifth)
  qed
qed

lemma init_with_evaluators:
  assumes "\<forall>name \<in> set core_evaluator_names. map_of methods name \<noteq> None"
  shows "\<exists>g. EthicalGovernor_init profile methods = Inr g
             \<and> \<not> governance_active g
             \<and> learning_mode g
             \<and> decision_history g = []
             \<and> ethical_metrics g =
                 \<lparr>total_decisions = 0, violations_prevented = 0, restrictions_imposed = 0,
                  escalations_required = 0, learning_adjustments = 0\<rparr>
             \<and> principle_weights g
                 = u_initialize_principle_weights
                     (dict_get (dict_get profile ''core_philosophy'' []) ''ethical_foundation'' [])
             \<and> map fst (action_interceptors g)
                 = [''data_access'', ''system_modify'', ''user_interact'', ''ai_decision'',
                    ''network_communicate'']"
proof -
  from assms [unfolded core_evaluator_names_ball not_None_eq]
  obtain f1 f2 f3 f4 f5 where defined:
    "map_of methods ''_evaluate_data_access'' = Some f1"
    "map_of methods ''_evaluate_system_modification'' = Some f2"
    "map_of methods ''_evaluate_user_interaction'' = Some f3"
    "map_of methods ''_evaluate_ai_decision'' = Some f4"
    "map_of methods ''_evaluate_network_communication'' = Some f5"
    by (elim conjE exE)
  have names: "map fst
      (AList.update ''network_communicate'' f5
        (AList.update ''ai_decision'' f4
          (AList.update ''user_interact'' f3
            (AList.update ''system_modify'' f2
              (AList.update ''data_access'' f1 [])))))
      = [''data_access'', ''system_modify'', ''user_interact'', ''ai_decision'',
         ''network_communicate'']"
    by simp
  show ?thesis
    unfolding EthicalGovernor_init_def Let_def
      setup_core_interceptors_defined [OF defined]
    by (simp add: register_interceptor_def names del: AList.update.simps)
qed

lemma init_without_evaluator:
  assumes "\<exists>name \<in> set core_evaluator_names. map_of methods name = None"
  shows "\<exists>m. EthicalGovernor_init profile methods = Inl (AttributeError m)"
  unfolding EthicalGovernor_init_def Let_def
  by (rule setup_core_interceptors_undefined [OF assms])



end
